theory Spec2Isabelle
  imports Main "HOL-Library.Sublist"
begin

section \<open>Deduplication of candidate blobs\<close>

text \<open>
  Modelled from the spec: \<^verbatim>\<open>getNewBlobs\<close> (\<^verbatim>\<open>utils/indexer\<close>) is not under src/;
  only its caller, the \<^verbatim>\<open>index\<close> mutation of \<^verbatim>\<open>router/indexer.ts\<close>, is.
  The spec (4.3, DedupFilter) gives the contract
  \<^verbatim>\<open>partition(candidates, knownLookup) -> {new, existing}\<close>: one bulk lookup
  for the whole batch, both outputs in input order, and for an empty candidate
  sequence two empty sequences without invoking the lookup.

  The lookup capability is \<open>bulkContains\<close>, from the queried hashes to the known
  ones. The field \<open>lookups\<close> is the list of bulk queries the partition issued.
\<close>

record 'a partitioned =
  new :: "'a list"
  existing :: "'a list"
  lookups :: "string list list"

definition dedup_partition ::
  "('a \<Rightarrow> string) \<Rightarrow> 'a list \<Rightarrow> (string list \<Rightarrow> string list) \<Rightarrow> 'a partitioned" where
  "dedup_partition key candidates bulkContains =
     (if candidates = [] then \<lparr>new = [], existing = [], lookups = []\<rparr>
      else
        let hashes = map key candidates;
            known = bulkContains hashes
        in \<lparr>new = filter (\<lambda>c. key c \<notin> set known) candidates,
            existing = filter (\<lambda>c. key c \<in> set known) candidates,
            lookups = [hashes]\<rparr>)"

section \<open>Data of the index mutation\<close>

text \<open>
  The request of \<^verbatim>\<open>indexerRouter.index\<close> (\<^verbatim>\<open>INDEX_REQUEST_DATA\<close>,
  \<^verbatim>\<open>router/indexer.ts\<close> lines 13-37). Fields that share a name in the source
  (\<^verbatim>\<open>hash\<close>, \<^verbatim>\<open>index\<close>) carry the name of their object as a prefix. Numbers
  are integers; the time stamp of the block is in seconds.
\<close>

record block_input =
  block_number :: int
  block_hash :: string
  block_timestamp :: int
  block_slot :: int

record transaction_input =
  tx_hash :: string
  tx_from :: string
  tx_to :: "string option"
  tx_blockNumber :: int

record blob =
  versionedHash :: string
  commitment :: string
  data :: string
  txHash :: string
  blob_index :: int

record index_request =
  block :: block_input
  transactions :: "transaction_input list"
  blobs :: "blob list"

text \<open>
  A postage batch as \<^verbatim>\<open>swarm.beeDebug.getAllPostageBatch()\<close> returns it; the
  mutation reads only \<^verbatim>\<open>batchID\<close>, which line 103 allows to be undefined.
\<close>

record postage_batch =
  batchID :: "string option"

text \<open>
  The result of \<^verbatim>\<open>getUniqueAddressesFromTxs\<close> (not under src/): the mutation
  only concatenates and counts the four lists, so an address row is left
  abstract as a string.
\<close>

type_synonym address_row = string

record address_partition =
  new_addresses :: "address_row list"
  existing_addresses :: "address_row list"

record unique_addresses =
  uniqueFromAddresses :: address_partition
  uniqueToAddresses :: address_partition

text \<open>The object built for each uploaded blob (lines 142-149).\<close>

record uploaded_blob =
  blob_id :: string
  blob_versionedHash :: string
  blob_commitment :: string
  gsUri :: string
  swarmHash :: string
  blob_size :: nat

text \<open>The rows of lines 159-200.\<close>

record block_data =
  data_number :: int
  data_hash :: string
  data_timestamp :: int
  data_slot :: int

record transaction_row =
  row_id :: string
  row_hash :: string
  fromId :: string
  toId :: "string option"
  row_blockNumber :: int
  row_timestamp :: int

record blob_on_transaction =
  blobHash :: string
  row_txHash :: string
  row_index :: int

text \<open>
  The operations handed to \<^verbatim>\<open>prisma.$transaction\<close> (lines 230-240). Prisma
  runs none of them before the transaction does. \<open>BlockUpsert n d\<close> is the upsert
  of the block with id \<open>n\<close>, created and updated with the data \<open>d\<close>; the flag of
  the two \<^verbatim>\<open>createMany\<close> calls is \<^verbatim>\<open>skipDuplicates\<close>.
\<close>

datatype db_op =
    BlockUpsert int block_data
  | AddressUpdateMany "address_row list"
  | AddressCreateMany "address_row list"
  | TransactionCreateMany "transaction_row list" bool
  | BlobCreateMany "uploaded_blob list"
  | BlobsOnTransactionsCreateMany "blob_on_transaction list" bool
  | UpdateOverallBlockStats nat
  | UpdateOverallTxStats nat nat nat
  | UpdateOverallBlobStats nat nat nat

text \<open>
  A store operation issued to a backend: \<open>Save bucket name data\<close> is
  \<^verbatim>\<open>storage.bucket(bucket).file(name).save(data)\<close> on Google Storage, and
  \<open>UploadFile batchId data name pin contentType\<close> is
  \<^verbatim>\<open>swarm.bee.uploadFile(batchId, data, name, {pin, contentType})\<close> on Swarm.
\<close>

datatype store_op =
    Save string string string
  | UploadFile string string string bool string

section \<open>Promises\<close>

text \<open>
  A settled promise carries the position of its settlement in the order in
  which the event loop settles the promises of the request (a time), and its
  value or the reason of its rejection. \<^verbatim>\<open>Promise.all\<close> is fulfilled with the
  values in the order of its array once all are fulfilled, and is rejected
  with the reason of the first of them to be rejected, whatever the others do;
  promises given the same time are taken in the order of the array.
\<close>

datatype 'a promise = Fulfilled nat 'a | Rejected nat string

fun first_rejection :: "'a promise list \<Rightarrow> (nat \<times> string) option" where
  "first_rejection [] = None"
| "first_rejection (Fulfilled t v # ps) = first_rejection ps"
| "first_rejection (Rejected t r # ps) =
     (case first_rejection ps of
        None \<Rightarrow> Some (t, r)
      | Some (u, s) \<Rightarrow> if u < t then Some (u, s) else Some (t, r))"

fun fulfilled_values :: "'a promise list \<Rightarrow> 'a list" where
  "fulfilled_values [] = []"
| "fulfilled_values (Fulfilled t v # ps) = v # fulfilled_values ps"
| "fulfilled_values (Rejected t r # ps) = fulfilled_values ps"

fun settled_at :: "'a promise \<Rightarrow> nat" where
  "settled_at (Fulfilled t v) = t"
| "settled_at (Rejected t r) = t"

definition promise_all :: "'a promise list \<Rightarrow> 'a list promise" where
  "promise_all ps =
     (case first_rejection ps of
        Some (t, r) \<Rightarrow> Rejected t r
      | None \<Rightarrow> Fulfilled (foldr max (map settled_at ps) 0) (fulfilled_values ps))"

text \<open>\<^verbatim>\<open>Promise.all\<close> of two promises of different types (lines 137-140).\<close>

fun promise_all2 :: "'a promise \<Rightarrow> 'b promise \<Rightarrow> ('a \<times> 'b) promise" where
  "promise_all2 (Fulfilled t a) (Fulfilled u b) = Fulfilled (max t u) (a, b)"
| "promise_all2 (Rejected t r) (Fulfilled u b) = Rejected t r"
| "promise_all2 (Fulfilled t a) (Rejected u s) = Rejected u s"
| "promise_all2 (Rejected t r) (Rejected u s) = (if u < t then Rejected u s else Rejected t r)"

text \<open>The rest of an async function after its \<^verbatim>\<open>await\<close>.\<close>

fun and_then :: "'a promise \<Rightarrow> ('a \<Rightarrow> 'b) \<Rightarrow> 'b promise" where
  "and_then (Fulfilled t v) f = Fulfilled t (f v)"
| "and_then (Rejected t r) f = Rejected t r"

section \<open>The index mutation\<close>

text \<open>
  What the mutation is given by its context and its imports, for one request:
  the answers of the services it awaits and the helpers of this repository
  that are not under src/.
  \<^item> \<open>getAllPostageBatch\<close>: the answer of \<^verbatim>\<open>swarm.beeDebug.getAllPostageBatch()\<close>,
    the batches or the reason of its rejection;
  \<^item> \<open>getUniqueAddressesFromTxs\<close>: the answer of the helper of that name;
  \<^item> \<open>bulkContains\<close>: the known-hash lookup of the database, used by \<open>getNewBlobs\<close>;
  \<^item> \<open>save\<close>, \<open>uploadFile\<close>: the promises of the two store operations, the second
    fulfilled with \<^verbatim>\<open>reference.toString()\<close>;
  \<^item> \<open>transaction\<close>: the answer of \<^verbatim>\<open>prisma.$transaction\<close>;
  \<^item> \<open>buildGoogleStorageUri\<close>, \<open>calculateBlobSize\<close>, \<open>BUCKET_NAME\<close>: the helpers and the
    constant the mutation imports;
  \<^item> \<open>buckets\<close>: the buckets that exist in Google Storage. The mutation never
    reads it; the health check of the object store does.
\<close>

record env =
  getAllPostageBatch :: "string + postage_batch list"
  getUniqueAddressesFromTxs :: "transaction_input list \<Rightarrow> string + unique_addresses"
  bulkContains :: "string list \<Rightarrow> string list"
  save :: "string \<Rightarrow> string \<Rightarrow> string \<Rightarrow> unit promise"
  uploadFile :: "string \<Rightarrow> string \<Rightarrow> string \<Rightarrow> bool \<Rightarrow> string \<Rightarrow> string promise"
  transaction :: "db_op list \<Rightarrow> string + unit"
  buildGoogleStorageUri :: "string \<Rightarrow> string"
  calculateBlobSize :: "string \<Rightarrow> nat"
  BUCKET_NAME :: string
  buckets :: "string list"

text \<open>
  The mutation fails with the \<^verbatim>\<open>TRPCError\<close> it throws itself (code and message)
  or with the reason of a rejected promise it awaits.
\<close>

datatype index_error = TRPCError string string | Rejection string

text \<open>
  What a run of the mutation does. The output of the mutation is void:
  \<open>Inr\<close> carries the local \<^verbatim>\<open>uploadedBlobs\<close>, the blob records it built and
  stored by \<^verbatim>\<open>prisma.blob.createMany\<close>. \<open>store_ops\<close> are the store operations
  issued to the backends, in the order of issue, \<open>db_lookups\<close> the bulk lookups
  of known hashes, \<open>committed\<close> the operations of the committed transaction.
\<close>

record index_outcome =
  result :: "index_error + uploaded_blob list"
  store_ops :: "store_op list"
  db_lookups :: "string list list"
  committed :: "db_op list"

definition failed :: "index_error \<Rightarrow> store_op list \<Rightarrow> string list list \<Rightarrow> index_outcome" where
  "failed e ops lks = \<lparr>result = Inl e, store_ops = ops, db_lookups = lks, committed = []\<rparr>"

text \<open>
  Modelled from the spec: \<^verbatim>\<open>getNewBlobs(prisma, input.blobs)\<close> is not under
  src/. It is the partition above on the versioned hashes, against the lookup
  of the database; the mutation takes the new blobs of it. The lookup always
  answers.
\<close>

definition getNewBlobs :: "env \<Rightarrow> blob list \<Rightarrow> blob partitioned" where
  "getNewBlobs e bs = dedup_partition versionedHash bs (bulkContains e)"

text \<open>
  The async function mapped over \<^verbatim>\<open>newBlobs\<close> (lines 121-150). It runs up to
  its \<^verbatim>\<open>await\<close> inside the \<^verbatim>\<open>map\<close>: both store operations of a blob are issued
  there, \<open>uploadBlob_issued\<close>, before any promise is awaited. \<open>uploadBlob\<close> is the
  promise it returns.
\<close>

definition uploadBlob_issued :: "env \<Rightarrow> string \<Rightarrow> blob \<Rightarrow> store_op list" where
  "uploadBlob_issued e batchId b =
     [Save (BUCKET_NAME e) (buildGoogleStorageUri e (versionedHash b)) (data b),
      UploadFile batchId (data b) (buildGoogleStorageUri e (versionedHash b)) True ''text/plain'']"

definition uploadBlob :: "env \<Rightarrow> string \<Rightarrow> blob \<Rightarrow> uploaded_blob promise" where
  "uploadBlob e batchId b =
     (let uploadBlobsToGoogleStoragePromise =
            save e (BUCKET_NAME e) (buildGoogleStorageUri e (versionedHash b)) (data b);
          uploadBlobsToSwarmPromise =
            uploadFile e batchId (data b) (buildGoogleStorageUri e (versionedHash b)) True ''text/plain''
      in and_then (promise_all2 uploadBlobsToGoogleStoragePromise uploadBlobsToSwarmPromise)
           (\<lambda>(u, swarmUploadData).
              \<lparr>blob_id = versionedHash b,
               blob_versionedHash = versionedHash b,
               blob_commitment = commitment b,
               gsUri = buildGoogleStorageUri e (versionedHash b),
               swarmHash = swarmUploadData,
               blob_size = calculateBlobSize e (data b)\<rparr>))"

text \<open>Steps 4 and 5 (lines 153-226): the operations of the transaction.\<close>

definition db_operations :: "index_request \<Rightarrow> unique_addresses \<Rightarrow> uploaded_blob list \<Rightarrow> db_op list" where
  "db_operations input addrs uploadedBlobs =
     (let timestamp = block_timestamp (block input) * 1000;
          uniqueFrom = uniqueFromAddresses addrs;
          uniqueTo = uniqueToAddresses addrs;
          blockData = \<lparr>data_number = block_number (block input),
                       data_hash = block_hash (block input),
                       data_timestamp = timestamp,
                       data_slot = block_slot (block input)\<rparr>;
          uploadedBlobsSize = foldl (\<lambda>totalBlobSize b. totalBlobSize + blob_size b) 0 uploadedBlobs;
          totalReceivers = length (existing_addresses uniqueTo) + length (new_addresses uniqueTo);
          totalSenders = length (existing_addresses uniqueFrom) + length (new_addresses uniqueFrom)
      in [BlockUpsert (block_number (block input)) blockData,
          AddressUpdateMany (existing_addresses uniqueFrom @ existing_addresses uniqueTo),
          AddressCreateMany (new_addresses uniqueFrom @ new_addresses uniqueTo),
          TransactionCreateMany
            (map (\<lambda>t. \<lparr>row_id = tx_hash t, row_hash = tx_hash t, fromId = tx_from t,
                       toId = tx_to t, row_blockNumber = tx_blockNumber t,
                       row_timestamp = timestamp\<rparr>) (transactions input)) True,
          BlobCreateMany uploadedBlobs,
          BlobsOnTransactionsCreateMany
            (map (\<lambda>b. \<lparr>blobHash = versionedHash b, row_txHash = txHash b,
                       row_index = blob_index b\<rparr>) (blobs input)) True,
          UpdateOverallBlockStats 1,
          UpdateOverallTxStats (length (transactions input)) totalReceivers totalSenders,
          UpdateOverallBlobStats (length (blobs input)) (length uploadedBlobs) uploadedBlobsSize])"

text \<open>
  \<^verbatim>\<open>indexerRouter.index\<close> (lines 96-241). Step 1 awaits the postage batches and
  throws when there is none or the first has no id. Step 2 starts the address
  query and \<open>getNewBlobs\<close> together and awaits both. Step 3 issues the store
  operations of every new blob and awaits them all. Steps 4 to 6 build the
  operations and run them in one transaction.
\<close>

definition index :: "env \<Rightarrow> index_request \<Rightarrow> index_outcome" where
  "index e input =
     (case getAllPostageBatch e of
        Inl r \<Rightarrow> failed (Rejection r) [] []
      | Inr batches \<Rightarrow>
          (case batches of
             [] \<Rightarrow> failed (TRPCError ''INTERNAL_SERVER_ERROR'' ''Not available Swarm postages'') [] []
           | batch # _ \<Rightarrow>
               (case batchID batch of
                  None \<Rightarrow>
                    failed (TRPCError ''INTERNAL_SERVER_ERROR'' ''Not available Swarm postages'') [] []
                | Some batchId \<Rightarrow>
                    (let part = getNewBlobs e (blobs input);
                         newBlobs = new part
                     in case getUniqueAddressesFromTxs e (transactions input) of
                          Inl r \<Rightarrow> failed (Rejection r) [] (lookups part)
                        | Inr addrs \<Rightarrow>
                            (let issued = concat (map (uploadBlob_issued e batchId) newBlobs);
                                 uploadBlobsPromise = map (uploadBlob e batchId) newBlobs
                             in case promise_all uploadBlobsPromise of
                                  Rejected t r \<Rightarrow> failed (Rejection r) issued (lookups part)
                                | Fulfilled t uploadedBlobs \<Rightarrow>
                                    (let ops = db_operations input addrs uploadedBlobs
                                     in case transaction e ops of
                                          Inl r \<Rightarrow> failed (Rejection r) issued (lookups part)
                                        | Inr _ \<Rightarrow>
                                            \<lparr>result = Inr uploadedBlobs,
                                             store_ops = issued,
                                             db_lookups = lookups part,
                                             committed = ops\<rparr>))))))"


text \<open>
  The time and the reason with which the backend rejects a store operation, if
  it does.
\<close>

fun op_rejection :: "env \<Rightarrow> store_op \<Rightarrow> (nat \<times> string) option" where
  "op_rejection e (Save bucket name d) =
     (case save e bucket name d of Rejected t r \<Rightarrow> Some (t, r) | Fulfilled t v \<Rightarrow> None)"
| "op_rejection e (UploadFile batchId d name pin contentType) =
     (case uploadFile e batchId d name pin contentType of
        Rejected t r \<Rightarrow> Some (t, r)
      | Fulfilled t v \<Rightarrow> None)"

text \<open>The error thrown at lines 104-107.\<close>

abbreviation postage_error :: index_error where
  "postage_error \<equiv> TRPCError ''INTERNAL_SERVER_ERROR'' ''Not available Swarm postages''"

section \<open>The storage key\<close>

text \<open>The decimal digits of an integer, as \<^verbatim>\<open>toString()\<close> writes them.\<close>

definition digit_char :: "nat \<Rightarrow> char" where
  "digit_char d = ''0123456789'' ! (d mod 10)"

function decimal :: "int \<Rightarrow> string" where
  "decimal n =
     (if n < 0 then CHR ''-'' # decimal (- n)
      else if n < 10 then [digit_char (nat n)]
      else decimal (n div 10) @ [digit_char (nat (n mod 10))])"
  by pat_completeness auto
termination
  by (relation "measure (\<lambda>n. if n < 0 then nat (- n) + 1 else nat n)") auto

declare decimal.simps [simp del]


text \<open>
  Modelled from the spec: the function that derives the storage key
  (\<^verbatim>\<open>GoogleStorage.storeBlob\<close> of the blob storage manager,
  \<^verbatim>\<open>buildGoogleStorageUri\<close> of the API) is not under src/; the test of
  \<^verbatim>\<open>storeBlob\<close> is (\<^verbatim>\<open>GoogleStorage.test.ts\<close> lines 81-88). \<open>deriveKey\<close> follows
  the words of the spec (4.1): the chain id as a decimal prefix, then the
  content hash, after its \<^verbatim>\<open>0x\<close>, split into successive segments of two
  characters up to the configured depth, then the remainder of the hash, all
  joined by \<^verbatim>\<open>/\<close>.
\<close>

definition hex_digits :: "string \<Rightarrow> string" where
  "hex_digits contentHash =
     (if take 2 contentHash = ''0x'' then drop 2 contentHash else contentHash)"

fun sharded :: "nat \<Rightarrow> string \<Rightarrow> string" where
  "sharded 0 s = s"
| "sharded (Suc depth) s = take 2 s @ ''/'' @ sharded depth (drop 2 s)"

definition deriveKey :: "nat \<Rightarrow> int \<Rightarrow> string \<Rightarrow> string" where
  "deriveKey depth chainId contentHash =
     decimal chainId @ ''/'' @ sharded depth (hex_digits contentHash)"


text \<open>
  The string the test expects (line 86), and the hash of the test: the fixture
  \<^verbatim>\<open>BLOB_HASH\<close> is not under src/; it is the versioned hash whose digits are the
  file name of the snapshot.
\<close>

definition storeBlob_snapshot :: string where
  "storeBlob_snapshot =
     ''70118930558/01/00/ea/0100eac880c712dba4346c88ab564fa1b79024106f78f732cca49d8a68e4c174.txt''"


section \<open>An example context and request\<close>

text \<open>
  A context in which one postage batch is available, the database knows the
  hash \<^verbatim>\<open>0xbb22\<close>, and Swarm rejects the data \<^verbatim>\<open>late\<close> (at time 5) and \<^verbatim>\<open>early\<close>
  (at time 2); every other call succeeds. In \<open>missing_bucket_env\<close> the bucket
  does not exist, and Google Storage rejects every save.
\<close>

definition example_env :: env where
  "example_env =
     \<lparr>getAllPostageBatch = Inr [\<lparr>batchID = Some ''batch-1''\<rparr>],
      getUniqueAddressesFromTxs =
        (\<lambda>txs. Inr \<lparr>uniqueFromAddresses =
                      \<lparr>new_addresses = map tx_from txs, existing_addresses = []\<rparr>,
                    uniqueToAddresses = \<lparr>new_addresses = [], existing_addresses = []\<rparr>\<rparr>),
      bulkContains = (\<lambda>hashes. filter (\<lambda>h. h = ''0xbb22'') hashes),
      save = (\<lambda>bucket name d. Fulfilled 1 ()),
      uploadFile =
        (\<lambda>batchId d name pin contentType.
           if d = ''late'' then Rejected 5 ''swarm timeout''
           else if d = ''early'' then Rejected 2 ''swarm refused''
           else Fulfilled 3 (''ref-'' @ name)),
      transaction = (\<lambda>ops. Inr ()),
      buildGoogleStorageUri = (\<lambda>h. ''1/'' @ drop 2 h @ ''.txt''),
      calculateBlobSize = length,
      BUCKET_NAME = ''blobscan'',
      buckets = [''blobscan'']\<rparr>"


definition example_blob :: "string \<Rightarrow> string \<Rightarrow> blob" where
  "example_blob h d =
     \<lparr>versionedHash = h, commitment = ''0xc0'', data = d, txHash = ''0xt1'', blob_index = 0\<rparr>"

definition example_request :: "blob list \<Rightarrow> index_request" where
  "example_request bs =
     \<lparr>block = \<lparr>block_number = 7, block_hash = ''0xb7'', block_timestamp = 1700000000,
               block_slot = 9\<rparr>,
      transactions = [\<lparr>tx_hash = ''0xt1'', tx_from = ''0xf1'', tx_to = None, tx_blockNumber = 7\<rparr>],
      blobs = bs\<rparr>"

section \<open>Properties of the deduplication\<close>

lemma dedup_partition_new:
  "new (dedup_partition key cs look) = filter (\<lambda>c. key c \<notin> set (look (map key cs))) cs"
  by (simp add: dedup_partition_def Let_def)

lemma dedup_partition_existing:
  "existing (dedup_partition key cs look) = filter (\<lambda>c. key c \<in> set (look (map key cs))) cs"
  by (simp add: dedup_partition_def Let_def)

text \<open>
  C6. For all candidate sequences and every known-hash lookup, the two outputs
  of the dedup partition together hold exactly the candidates, and no
  candidate is in both: each candidate is in exactly one of \<open>new\<close> and
  \<open>existing\<close>.
\<close>

theorem dedup_partition_union_disjoint:
  "set (new (dedup_partition key cs look)) \<union> set (existing (dedup_partition key cs look)) = set cs
   \<and> set (new (dedup_partition key cs look)) \<inter> set (existing (dedup_partition key cs look)) = {}"
  unfolding dedup_partition_new dedup_partition_existing by auto

text \<open>
  C7. For the empty candidate sequence the dedup partition returns two empty
  sequences and issues no lookup.
\<close>

theorem dedup_partition_empty:
  "dedup_partition key [] look = \<lparr>new = [], existing = [], lookups = []\<rparr>"
  by (simp add: dedup_partition_def)

section \<open>Promises: what \<open>Promise.all\<close> returns\<close>

lemma first_rejection_mem:
  "first_rejection ps = Some (t, r) \<Longrightarrow> Rejected t r \<in> set ps"
proof (induction ps arbitrary: t r rule: first_rejection.induct)
  case 1
  then show ?case by simp
next
  case (2 u v ps)
  then show ?case by simp
next
  case (3 u s ps)
  then show ?case by (auto split: option.splits if_splits)
qed

lemma first_rejection_None:
  "first_rejection ps = None \<Longrightarrow> Rejected t r \<notin> set ps"
  by (induction ps rule: first_rejection.induct) (auto split: option.splits if_splits)

lemma first_rejection_least:
  "first_rejection ps = Some (t, r) \<Longrightarrow> Rejected u s \<in> set ps \<Longrightarrow> t \<le> u"
proof (induction ps arbitrary: t r rule: first_rejection.induct)
  case 1
  then show ?case by simp
next
  case (2 t' v ps)
  then show ?case by auto
next
  case (3 t' r' ps)
  show ?case
  proof (cases "first_rejection ps")
    case None
    with "3.prems" first_rejection_None [of ps u s] show ?thesis
      by auto
  next
    case (Some p)
    obtain t'' r'' where p: "p = (t'', r'')" by (cases p)
    from "3.IH" [of t'' r''] Some p have ih: "Rejected u s \<in> set ps \<Longrightarrow> t'' \<le> u"
      by simp
    from "3.prems" Some p ih show ?thesis
      by (auto split: if_splits)
  qed
qed

lemma fulfilled_values_map:
  "first_rejection (map f xs) = None \<Longrightarrow>
   list_all2 (\<lambda>x v. \<exists>t. f x = Fulfilled t v) xs (fulfilled_values (map f xs))"
proof (induction xs)
  case Nil
  then show ?case by simp
next
  case (Cons x xs)
  then show ?case by (cases "f x") (auto split: option.splits if_splits)
qed

lemma promise_all_Fulfilled:
  "promise_all (map f xs) = Fulfilled t vs \<Longrightarrow>
   list_all2 (\<lambda>x v. \<exists>u. f x = Fulfilled u v) xs vs"
  by (auto simp: promise_all_def fulfilled_values_map split: option.splits)

lemma promise_all_Rejected:
  "promise_all ps = Rejected t r \<Longrightarrow> Rejected t r \<in> set ps"
  by (auto simp: promise_all_def first_rejection_mem split: option.splits)

lemma promise_all_Rejected_least:
  "promise_all ps = Rejected t r \<Longrightarrow> Rejected u s \<in> set ps \<Longrightarrow> t \<le> u"
  by (auto simp: promise_all_def split: option.splits dest: first_rejection_least)

lemma promise_all_rejects:
  "Rejected t r \<in> set ps \<Longrightarrow> \<exists>u s. promise_all ps = Rejected u s"
  using first_rejection_None [of ps t r]
  by (cases "first_rejection ps") (auto simp: promise_all_def)


lemma promise_all2_Fulfilled:
  "promise_all2 p q = Fulfilled t ab \<Longrightarrow>
   (\<exists>u. p = Fulfilled u (fst ab)) \<and> (\<exists>u. q = Fulfilled u (snd ab))"
  by (cases p; cases q) (auto split: if_splits)

lemma promise_all2_Rejected:
  "promise_all2 p q = Rejected t r \<Longrightarrow> p = Rejected t r \<or> q = Rejected t r"
  by (cases p; cases q) (auto split: if_splits)

lemma promise_all2_Rejected_least:
  "promise_all2 p q = Rejected t r \<Longrightarrow> p = Rejected u s \<or> q = Rejected u s \<Longrightarrow> t \<le> u"
  by (cases p; cases q) (auto split: if_splits)

lemma promise_all2_rejects_left:
  "p = Rejected t r \<Longrightarrow> \<exists>u s. promise_all2 p q = Rejected u s"
  by (cases q) auto

lemma promise_all2_rejects_right:
  "q = Rejected t r \<Longrightarrow> \<exists>u s. promise_all2 p q = Rejected u s"
  by (cases p) auto

lemma and_then_Fulfilled:
  "and_then p f = Fulfilled t v \<Longrightarrow> \<exists>a. p = Fulfilled t a \<and> v = f a"
  by (cases p) auto

lemma and_then_Rejected:
  "and_then p f = Rejected t r \<longleftrightarrow> p = Rejected t r"
  by (cases p) auto

lemma uploadBlob_Fulfilled:
  assumes "uploadBlob e batchId b = Fulfilled t row"
  shows "(\<exists>u. save e (BUCKET_NAME e) (buildGoogleStorageUri e (versionedHash b)) (data b) = Fulfilled u ())
   \<and> (\<exists>u. uploadFile e batchId (data b) (buildGoogleStorageUri e (versionedHash b)) True ''text/plain''
            = Fulfilled u (swarmHash row))
   \<and> row = \<lparr>blob_id = versionedHash b, blob_versionedHash = versionedHash b,
             blob_commitment = commitment b,
             gsUri = buildGoogleStorageUri e (versionedHash b),
             swarmHash = swarmHash row,
             blob_size = calculateBlobSize e (data b)\<rparr>"
proof -
  let ?gs = "save e (BUCKET_NAME e) (buildGoogleStorageUri e (versionedHash b)) (data b)"
  let ?sw = "uploadFile e batchId (data b) (buildGoogleStorageUri e (versionedHash b)) True ''text/plain''"
  from assms obtain ab where
    all: "promise_all2 ?gs ?sw = Fulfilled t ab" and
    row: "row = (case ab of (u, swarmUploadData) \<Rightarrow>
             \<lparr>blob_id = versionedHash b, blob_versionedHash = versionedHash b,
              blob_commitment = commitment b,
              gsUri = buildGoogleStorageUri e (versionedHash b),
              swarmHash = swarmUploadData,
              blob_size = calculateBlobSize e (data b)\<rparr>)"
    unfolding uploadBlob_def Let_def by (blast dest: and_then_Fulfilled)
  from row have sw: "swarmHash row = snd ab" by (cases ab) simp
  from promise_all2_Fulfilled [OF all] sw row show ?thesis by (cases ab) auto
qed

lemma uploadBlob_Rejected:
  "uploadBlob e batchId b = Rejected t r \<Longrightarrow>
   save e (BUCKET_NAME e) (buildGoogleStorageUri e (versionedHash b)) (data b) = Rejected t r
   \<or> uploadFile e batchId (data b) (buildGoogleStorageUri e (versionedHash b)) True ''text/plain''
        = Rejected t r"
  unfolding uploadBlob_def Let_def and_then_Rejected by (rule promise_all2_Rejected)

lemma uploadBlob_Rejected_least:
  "uploadBlob e batchId b = Rejected t r \<Longrightarrow>
   save e (BUCKET_NAME e) (buildGoogleStorageUri e (versionedHash b)) (data b) = Rejected u s
   \<or> uploadFile e batchId (data b) (buildGoogleStorageUri e (versionedHash b)) True ''text/plain''
        = Rejected u s \<Longrightarrow>
   t \<le> u"
  unfolding uploadBlob_def Let_def and_then_Rejected by (rule promise_all2_Rejected_least)

lemma uploadBlob_rejects_save:
  "save e (BUCKET_NAME e) (buildGoogleStorageUri e (versionedHash b)) (data b) = Rejected t r \<Longrightarrow>
   \<exists>u s. uploadBlob e batchId b = Rejected u s"
  unfolding uploadBlob_def Let_def and_then_Rejected by (rule promise_all2_rejects_left)

lemma uploadBlob_rejects_uploadFile:
  "uploadFile e batchId (data b) (buildGoogleStorageUri e (versionedHash b)) True ''text/plain''
     = Rejected t r \<Longrightarrow>
   \<exists>u s. uploadBlob e batchId b = Rejected u s"
  unfolding uploadBlob_def Let_def and_then_Rejected by (rule promise_all2_rejects_right)

section \<open>The runs of the index mutation\<close>

text \<open>
  The mutation ends in one of seven ways: the postage query is rejected, there
  is no postage batch, the first batch has no id, the address query is
  rejected, a store operation is rejected, the transaction is rejected, or the
  transaction is committed.
\<close>

lemma index_postage_rejected:
  "getAllPostageBatch e = Inl r \<Longrightarrow> index e inp = failed (Rejection r) [] []"
  by (simp add: index_def)

lemma index_no_postage:
  "getAllPostageBatch e = Inr [] \<Longrightarrow> index e inp = failed postage_error [] []"
  by (simp add: index_def)

lemma index_no_batchID:
  "getAllPostageBatch e = Inr (batch # rest) \<Longrightarrow> batchID batch = None \<Longrightarrow>
   index e inp = failed postage_error [] []"
  by (simp add: index_def)

lemma index_addresses_rejected:
  "getAllPostageBatch e = Inr (batch # rest) \<Longrightarrow> batchID batch = Some batchId \<Longrightarrow>
   getUniqueAddressesFromTxs e (transactions inp) = Inl r \<Longrightarrow>
   index e inp = failed (Rejection r) [] (lookups (getNewBlobs e (blobs inp)))"
  by (simp add: index_def Let_def)

lemma index_upload_rejected:
  "getAllPostageBatch e = Inr (batch # rest) \<Longrightarrow> batchID batch = Some batchId \<Longrightarrow>
   getUniqueAddressesFromTxs e (transactions inp) = Inr addrs \<Longrightarrow>
   promise_all (map (uploadBlob e batchId) (new (getNewBlobs e (blobs inp)))) = Rejected t r \<Longrightarrow>
   index e inp =
     failed (Rejection r)
       (concat (map (uploadBlob_issued e batchId) (new (getNewBlobs e (blobs inp)))))
       (lookups (getNewBlobs e (blobs inp)))"
  by (simp add: index_def Let_def)

lemma index_transaction_rejected:
  "getAllPostageBatch e = Inr (batch # rest) \<Longrightarrow> batchID batch = Some batchId \<Longrightarrow>
   getUniqueAddressesFromTxs e (transactions inp) = Inr addrs \<Longrightarrow>
   promise_all (map (uploadBlob e batchId) (new (getNewBlobs e (blobs inp)))) = Fulfilled t rows \<Longrightarrow>
   transaction e (db_operations inp addrs rows) = Inl r \<Longrightarrow>
   index e inp =
     failed (Rejection r)
       (concat (map (uploadBlob_issued e batchId) (new (getNewBlobs e (blobs inp)))))
       (lookups (getNewBlobs e (blobs inp)))"
  by (simp add: index_def Let_def)

lemma index_committed:
  "getAllPostageBatch e = Inr (batch # rest) \<Longrightarrow> batchID batch = Some batchId \<Longrightarrow>
   getUniqueAddressesFromTxs e (transactions inp) = Inr addrs \<Longrightarrow>
   promise_all (map (uploadBlob e batchId) (new (getNewBlobs e (blobs inp)))) = Fulfilled t rows \<Longrightarrow>
   transaction e (db_operations inp addrs rows) = Inr u \<Longrightarrow>
   index e inp =
     \<lparr>result = Inr rows,
      store_ops = concat (map (uploadBlob_issued e batchId) (new (getNewBlobs e (blobs inp)))),
      db_lookups = lookups (getNewBlobs e (blobs inp)),
      committed = db_operations inp addrs rows\<rparr>"
  by (simp add: index_def Let_def)

lemma index_cases [case_names postage_rejected no_postage no_batchID addresses_rejected
    upload_rejected transaction_rejected committed]:
  obtains
    r where "getAllPostageBatch e = Inl r" "index e inp = failed (Rejection r) [] []"
  | "getAllPostageBatch e = Inr []" "index e inp = failed postage_error [] []"
  | batch rest where "getAllPostageBatch e = Inr (batch # rest)" "batchID batch = None"
      "index e inp = failed postage_error [] []"
  | batch rest batchId r where "getAllPostageBatch e = Inr (batch # rest)"
      "batchID batch = Some batchId"
      "getUniqueAddressesFromTxs e (transactions inp) = Inl r"
      "index e inp = failed (Rejection r) [] (lookups (getNewBlobs e (blobs inp)))"
  | batch rest batchId addrs t r where "getAllPostageBatch e = Inr (batch # rest)"
      "batchID batch = Some batchId"
      "getUniqueAddressesFromTxs e (transactions inp) = Inr addrs"
      "promise_all (map (uploadBlob e batchId) (new (getNewBlobs e (blobs inp)))) = Rejected t r"
      "index e inp =
         failed (Rejection r)
           (concat (map (uploadBlob_issued e batchId) (new (getNewBlobs e (blobs inp)))))
           (lookups (getNewBlobs e (blobs inp)))"
  | batch rest batchId addrs t rows r where "getAllPostageBatch e = Inr (batch # rest)"
      "batchID batch = Some batchId"
      "getUniqueAddressesFromTxs e (transactions inp) = Inr addrs"
      "promise_all (map (uploadBlob e batchId) (new (getNewBlobs e (blobs inp)))) = Fulfilled t rows"
      "transaction e (db_operations inp addrs rows) = Inl r"
      "index e inp =
         failed (Rejection r)
           (concat (map (uploadBlob_issued e batchId) (new (getNewBlobs e (blobs inp)))))
           (lookups (getNewBlobs e (blobs inp)))"
  | batch rest batchId addrs t rows where "getAllPostageBatch e = Inr (batch # rest)"
      "batchID batch = Some batchId"
      "getUniqueAddressesFromTxs e (transactions inp) = Inr addrs"
      "promise_all (map (uploadBlob e batchId) (new (getNewBlobs e (blobs inp)))) = Fulfilled t rows"
      "index e inp =
         \<lparr>result = Inr rows,
          store_ops = concat (map (uploadBlob_issued e batchId) (new (getNewBlobs e (blobs inp)))),
          db_lookups = lookups (getNewBlobs e (blobs inp)),
          committed = db_operations inp addrs rows\<rparr>"
proof (cases "getAllPostageBatch e")
  case (Inl r)
  then show ?thesis using that(1) index_postage_rejected by blast
next
  case (Inr batches)
  show ?thesis
  proof (cases batches)
    case Nil
    with Inr show ?thesis using that(2) index_no_postage by blast
  next
    case (Cons batch rest)
    note pb = Inr [unfolded Cons]
    show ?thesis
    proof (cases "batchID batch")
      case None
      with pb show ?thesis using that(3) index_no_batchID by blast
    next
      case (Some batchId)
      show ?thesis
      proof (cases "getUniqueAddressesFromTxs e (transactions inp)")
        case (Inl r)
        from that(4) [OF pb Some Inl index_addresses_rejected [OF pb Some Inl]]
        show ?thesis .
      next
        case addrs: (Inr addrs)
        show ?thesis
        proof (cases "promise_all (map (uploadBlob e batchId) (new (getNewBlobs e (blobs inp))))")
          case (Rejected t r)
          from that(5) [OF pb Some addrs Rejected index_upload_rejected [OF pb Some addrs Rejected]]
          show ?thesis .
        next
          case (Fulfilled t rows)
          show ?thesis
          proof (cases "transaction e (db_operations inp addrs rows)")
            case (Inl r)
            from that(6) [OF pb Some addrs Fulfilled Inl
                index_transaction_rejected [OF pb Some addrs Fulfilled Inl]]
            show ?thesis .
          next
            case (Inr u)
            from that(7) [OF pb Some addrs Fulfilled
                index_committed [OF pb Some addrs Fulfilled Inr]]
            show ?thesis .
          qed
        qed
      qed
    qed
  qed
qed

lemma uploadBlob_issued_fun:
  "uploadBlob_issued e batchId =
     (\<lambda>b. [Save (BUCKET_NAME e) (buildGoogleStorageUri e (versionedHash b)) (data b),
           UploadFile batchId (data b) (buildGoogleStorageUri e (versionedHash b)) True ''text/plain''])"
  by (rule ext) (simp add: uploadBlob_issued_def)

lemma issued_op_blob:
  "op \<in> set (concat (map (uploadBlob_issued e batchId) bs)) \<Longrightarrow>
   \<exists>b \<in> set bs. op \<in> set (uploadBlob_issued e batchId b)"
  by auto

lemma rejected_op_rejects_blob:
  assumes "op \<in> set (uploadBlob_issued e batchId b)" and rej: "op_rejection e op = Some (u, s)"
  shows "\<exists>t r. uploadBlob e batchId b = Rejected t r \<and> t \<le> u"
proof -
  let ?gs = "save e (BUCKET_NAME e) (buildGoogleStorageUri e (versionedHash b)) (data b)"
  let ?sw = "uploadFile e batchId (data b) (buildGoogleStorageUri e (versionedHash b)) True ''text/plain''"
  from assms(1) consider
      "op = Save (BUCKET_NAME e) (buildGoogleStorageUri e (versionedHash b)) (data b)"
    | "op = UploadFile batchId (data b) (buildGoogleStorageUri e (versionedHash b)) True ''text/plain''"
    by (auto simp: uploadBlob_issued_def)
  then have one: "?gs = Rejected u s \<or> ?sw = Rejected u s"
  proof cases
    case 1
    with rej show ?thesis by (auto split: promise.splits)
  next
    case 2
    with rej show ?thesis by (auto split: promise.splits)
  qed
  then obtain t r where "uploadBlob e batchId b = Rejected t r"
    using uploadBlob_rejects_save uploadBlob_rejects_uploadFile by blast
  with uploadBlob_Rejected_least [OF this one] show ?thesis by blast
qed

lemma blob_rejection_has_op:
  "uploadBlob e batchId b = Rejected t r \<Longrightarrow>
   \<exists>op \<in> set (uploadBlob_issued e batchId b). op_rejection e op = Some (t, r)"
  by (auto simp: uploadBlob_issued_def dest!: uploadBlob_Rejected)

lemma getNewBlobs_new:
  "new (getNewBlobs e bs) =
     filter (\<lambda>b. versionedHash b \<notin> set (bulkContains e (map versionedHash bs))) bs"
  by (simp add: getNewBlobs_def dedup_partition_new)


lemma list_all2_map_eq:
  "list_all2 (\<lambda>x y. f x = g y) xs ys \<Longrightarrow> map f xs = map g ys"
  by (induction rule: list_all2_induct) simp_all

lemma uploaded_rows_follow_blobs:
  assumes "promise_all (map (uploadBlob e batchId) bs) = Fulfilled t rows"
  shows "map versionedHash bs = map blob_versionedHash rows"
proof -
  from promise_all_Fulfilled [OF assms]
  have "list_all2 (\<lambda>b row. \<exists>u. uploadBlob e batchId b = Fulfilled u row) bs rows" .
  then have "list_all2 (\<lambda>b row. versionedHash b = blob_versionedHash row) bs rows"
  proof (rule list_all2_mono)
    fix b row
    assume "\<exists>u. uploadBlob e batchId b = Fulfilled u row"
    then obtain u where "uploadBlob e batchId b = Fulfilled u row" ..
    from uploadBlob_Fulfilled [OF this]
    have "row = \<lparr>blob_id = versionedHash b, blob_versionedHash = versionedHash b,
             blob_commitment = commitment b,
             gsUri = buildGoogleStorageUri e (versionedHash b),
             swarmHash = swarmHash row,
             blob_size = calculateBlobSize e (data b)\<rparr>" by blast
    then have "blob_versionedHash row = versionedHash b"
      by (metis uploaded_blob.select_convs(2))
    then show "versionedHash b = blob_versionedHash row" by simp
  qed
  then show ?thesis by (rule list_all2_map_eq)
qed

lemmas example_simps =
  example_env_def example_blob_def example_request_def index_def getNewBlobs_def
  dedup_partition_def uploadBlob_def uploadBlob_issued_def promise_all_def db_operations_def
  failed_def Let_def

section \<open>The storage key: auxiliary facts\<close>





lemma digit_char_set: "digit_char d \<in> set ''0123456789''"
  unfolding digit_char_def by (rule nth_mem) simp

lemma decimal_chars: "set (decimal n) \<subseteq> set ''-0123456789''"
proof (induction n rule: decimal.induct)
  case (1 n)
  show ?case
  proof (cases "n < 0")
    case True
    with 1(1) show ?thesis by (subst decimal.simps) auto
  next
    case nonneg: False
    show ?thesis
    proof (cases "n < 10")
      case True
      from digit_char_set [of "nat n"] nonneg True show ?thesis
        by (subst decimal.simps) auto
    next
      case False
      from digit_char_set [of "nat (n mod 10)"] 1(2) [OF nonneg False] nonneg False
      show ?thesis
        by (subst decimal.simps) auto
    qed
  qed
qed

lemma sharded_chars: "set (sharded depth s) \<subseteq> insert CHR ''/'' (set s)"
proof (induction depth arbitrary: s)
  case 0
  then show ?case by auto
next
  case (Suc depth)
  have "set (take 2 s) \<subseteq> set s" by (rule set_take_subset)
  moreover have "set (drop 2 s) \<subseteq> set s" by (rule set_drop_subset)
  moreover note Suc [of "drop 2 s"]
  ultimately show ?case by auto
qed

lemma hex_digits_chars: "set (hex_digits h) \<subseteq> set h"
  by (auto simp: hex_digits_def dest: in_set_dropD)

lemma deriveKey_no_dot:
  assumes "CHR ''.'' \<notin> set contentHash"
  shows "CHR ''.'' \<notin> set (deriveKey depth chainId contentHash)"
proof -
  have "CHR ''.'' \<notin> set (decimal chainId)"
    using decimal_chars [of chainId] by auto
  moreover have "CHR ''.'' \<notin> set (sharded depth (hex_digits contentHash))"
    using sharded_chars [of depth "hex_digits contentHash"] hex_digits_chars [of contentHash] assms
    by auto
  ultimately show ?thesis by (simp add: deriveKey_def)
qed

lemma deriveKey_never_snapshot:
  assumes "CHR ''.'' \<notin> set contentHash"
  shows "deriveKey depth chainId contentHash \<noteq> storeBlob_snapshot"
proof
  assume "deriveKey depth chainId contentHash = storeBlob_snapshot"
  moreover have "CHR ''.'' \<in> set storeBlob_snapshot"
    by (simp add: storeBlob_snapshot_def)
  ultimately show False using deriveKey_no_dot [OF assms] by metis
qed

section \<open>The postage check\<close>

text \<open>
  C2. For every request with at least one blob, when Swarm reports no postage
  batch the mutation fails with the error of the postage check before any
  store operation is issued: no backend is written.
\<close>

theorem index_no_postage_no_write:
  assumes "blobs inp \<noteq> []" and "getAllPostageBatch e = Inr []"
  shows "result (index e inp) = Inl postage_error \<and> store_ops (index e inp) = []"
  using assms(2) by (simp add: index_no_postage failed_def)

text \<open>
  The theorem at a request with one new blob, in the example context without
  postage batches.
\<close>

theorem index_no_postage_no_write_witness:
  "blobs (example_request [example_blob ''0xaa11'' ''hello'']) \<noteq> []
   \<and> getAllPostageBatch (example_env\<lparr>getAllPostageBatch := Inr []\<rparr>) = Inr []
   \<and> result (index (example_env\<lparr>getAllPostageBatch := Inr []\<rparr>)
        (example_request [example_blob ''0xaa11'' ''hello''])) = Inl postage_error
   \<and> store_ops (index (example_env\<lparr>getAllPostageBatch := Inr []\<rparr>)
        (example_request [example_blob ''0xaa11'' ''hello''])) = []"
proof -
  have 1: "blobs (example_request [example_blob ''0xaa11'' ''hello'']) \<noteq> []"
    by (simp add: example_request_def)
  have 2: "getAllPostageBatch (example_env\<lparr>getAllPostageBatch := Inr []\<rparr>) = Inr []"
    by simp
  from index_no_postage_no_write [OF 1 2] 1 2 show ?thesis by blast
qed

text \<open>
  C10. The postage check comes first and does not depend on the blobs of the
  request: when Swarm reports no postage batch the mutation fails with the
  error of the postage check for every request, also one without blobs, and
  it has then issued no known-hash lookup and no store operation and has
  committed nothing.
\<close>

theorem index_postage_check_first:
  assumes "getAllPostageBatch e = Inr []"
  shows "index e inp =
           \<lparr>result = Inl postage_error, store_ops = [], db_lookups = [], committed = []\<rparr>"
  using assms by (simp add: index_no_postage failed_def)

text \<open>
  The theorem at a request without blobs.
\<close>

theorem index_postage_check_first_witness:
  "getAllPostageBatch (example_env\<lparr>getAllPostageBatch := Inr []\<rparr>) = Inr []
   \<and> blobs (example_request []) = []
   \<and> index (example_env\<lparr>getAllPostageBatch := Inr []\<rparr>) (example_request []) =
       \<lparr>result = Inl postage_error, store_ops = [], db_lookups = [], committed = []\<rparr>"
proof -
  have 1: "getAllPostageBatch (example_env\<lparr>getAllPostageBatch := Inr []\<rparr>) = Inr []"
    by simp
  have 2: "blobs (example_request []) = []"
    by (simp add: example_request_def)
  from index_postage_check_first [OF 1] 1 2 show ?thesis by blast
qed




section \<open>The uploads\<close>

text \<open>
  C1 (as amended). When a store operation that the mutation issued is
  rejected, the mutation fails and returns no blob record, neither for the
  blob of that operation nor for the blobs whose writes all succeeded, and it
  commits nothing. Its error is the reason of one rejected store operation of
  the run, one that no other was rejected before, as \<^verbatim>\<open>Promise.all\<close> passes it
  on; it is not an aggregate of the failures.
\<close>

theorem index_store_failure_fails_batch:
  assumes "op \<in> set (store_ops (index e inp))" and "op_rejection e op = Some (u, s)"
  shows "\<exists>t r. result (index e inp) = Inl (Rejection r)
           \<and> (\<exists>op' \<in> set (store_ops (index e inp)). op_rejection e op' = Some (t, r))
           \<and> t \<le> u
           \<and> committed (index e inp) = []"
proof (cases e inp rule: index_cases)
  case (upload_rejected batch rest batchId addrs t r)
  let ?bs = "new (getNewBlobs e (blobs inp))"
  from promise_all_Rejected [OF upload_rejected(4)]
  obtain b' where "b' \<in> set ?bs" and "uploadBlob e batchId b' = Rejected t r"
    by auto
  with blob_rejection_has_op [of e batchId b' t r]
  have reported:
    "\<exists>op' \<in> set (concat (map (uploadBlob_issued e batchId) ?bs)). op_rejection e op' = Some (t, r)"
    by auto
  from assms(1) upload_rejected(5)
  have "op \<in> set (concat (map (uploadBlob_issued e batchId) ?bs))"
    by (simp add: failed_def)
  then obtain b where b: "b \<in> set ?bs" and "op \<in> set (uploadBlob_issued e batchId b)"
    using issued_op_blob by blast
  with assms(2) obtain t1 r1 where "uploadBlob e batchId b = Rejected t1 r1" and "t1 \<le> u"
    using rejected_op_rejects_blob by blast
  with b have "Rejected t1 r1 \<in> set (map (uploadBlob e batchId) ?bs)"
    by force
  from promise_all_Rejected_least [OF upload_rejected(4) this] \<open>t1 \<le> u\<close> have "t \<le> u"
    by simp
  moreover from upload_rejected(5)
  have "result (index e inp) = Inl (Rejection r)"
    and "store_ops (index e inp) = concat (map (uploadBlob_issued e batchId) ?bs)"
    and "committed (index e inp) = []"
    by (simp_all add: failed_def)
  ultimately show ?thesis using reported by metis
next
  case (transaction_rejected batch rest batchId addrs t rows r')
  let ?bs = "new (getNewBlobs e (blobs inp))"
  from assms(1) transaction_rejected(6)
  have "op \<in> set (concat (map (uploadBlob_issued e batchId) ?bs))"
    by (simp add: failed_def)
  then obtain b where b: "b \<in> set ?bs" and "op \<in> set (uploadBlob_issued e batchId b)"
    using issued_op_blob by blast
  with assms(2) obtain t1 r1 where "uploadBlob e batchId b = Rejected t1 r1"
    using rejected_op_rejects_blob by blast
  with b have "Rejected t1 r1 \<in> set (map (uploadBlob e batchId) ?bs)"
    by force
  from promise_all_rejects [OF this] transaction_rejected(4) show ?thesis by simp
next
  case (committed batch rest batchId addrs t rows)
  let ?bs = "new (getNewBlobs e (blobs inp))"
  from assms(1) committed(5)
  have "op \<in> set (concat (map (uploadBlob_issued e batchId) ?bs))"
    by simp
  then obtain b where b: "b \<in> set ?bs" and "op \<in> set (uploadBlob_issued e batchId b)"
    using issued_op_blob by blast
  with assms(2) obtain t1 r1 where "uploadBlob e batchId b = Rejected t1 r1"
    using rejected_op_rejects_blob by blast
  with b have "Rejected t1 r1 \<in> set (map (uploadBlob e batchId) ?bs)"
    by force
  from promise_all_rejects [OF this] committed(4) show ?thesis by simp
qed (use assms(1) in \<open>simp_all add: failed_def\<close>)

text \<open>
  The theorem at a request with two new blobs, the second of which Swarm rejects.
\<close>

theorem index_store_failure_fails_batch_witness:
  "UploadFile ''batch-1'' ''early'' ''1/cc33.txt'' True ''text/plain''
     \<in> set (store_ops (index example_env
         (example_request [example_blob ''0xaa11'' ''hello'', example_blob ''0xcc33'' ''early''])))
   \<and> op_rejection example_env (UploadFile ''batch-1'' ''early'' ''1/cc33.txt'' True ''text/plain'')
       = Some (2, ''swarm refused'')
   \<and> (\<exists>r. result (index example_env
         (example_request [example_blob ''0xaa11'' ''hello'', example_blob ''0xcc33'' ''early'']))
         = Inl (Rejection r))
   \<and> committed (index example_env
         (example_request [example_blob ''0xaa11'' ''hello'', example_blob ''0xcc33'' ''early'']))
       = []"
proof -
  let ?inp = "example_request [example_blob ''0xaa11'' ''hello'', example_blob ''0xcc33'' ''early'']"
  let ?op = "UploadFile ''batch-1'' ''early'' ''1/cc33.txt'' True ''text/plain''"
  have 1: "?op \<in> set (store_ops (index example_env ?inp))"
    by (simp add: example_simps)
  have 2: "op_rejection example_env ?op = Some (2, ''swarm refused'')"
    by (simp add: example_env_def)
  from index_store_failure_fails_batch [OF 1 2] 1 2 show ?thesis by blast
qed

text \<open>
  The sentence of the spec does not hold where two store operations are rejected: the
  run below has the rejections \<^verbatim>\<open>swarm timeout\<close>, at time 5, and \<^verbatim>\<open>swarm refused\<close>,
  at time 2, and the error of the mutation is the second alone, the one
  rejected first.
\<close>

theorem index_error_not_aggregated_counterexample:
  "List.map_filter (op_rejection example_env)
     (store_ops (index example_env
        (example_request [example_blob ''0xaa11'' ''late'', example_blob ''0xcc33'' ''early''])))
     = [(5, ''swarm timeout''), (2, ''swarm refused'')]
   \<and> result (index example_env
        (example_request [example_blob ''0xaa11'' ''late'', example_blob ''0xcc33'' ''early'']))
     = Inl (Rejection ''swarm refused'')"
  by (simp add: example_simps List.map_filter_def)

text \<open>
  C5. The store operations the mutation issues are, for each new blob in turn,
  the save on Google Storage and the upload to Swarm, both under the same
  name: the one key \<open>buildGoogleStorageUri\<close> derives from the versioned hash of
  the blob.
\<close>

theorem index_same_key_on_every_backend:
  assumes "store_ops (index e inp) \<noteq> []"
  shows "\<exists>batch rest batchId.
           getAllPostageBatch e = Inr (batch # rest) \<and> batchID batch = Some batchId
           \<and> store_ops (index e inp) =
               concat (map (\<lambda>b. [Save (BUCKET_NAME e) (buildGoogleStorageUri e (versionedHash b))
                                   (data b),
                                 UploadFile batchId (data b)
                                   (buildGoogleStorageUri e (versionedHash b)) True ''text/plain''])
                        (new (getNewBlobs e (blobs inp))))"
  using assms
  by (cases e inp rule: index_cases) (simp_all add: failed_def uploadBlob_issued_fun)

text \<open>
  The theorem at a request with two new blobs and a known one.
\<close>

theorem index_same_key_on_every_backend_witness:
  "store_ops (index example_env
      (example_request [example_blob ''0xaa11'' ''hello'', example_blob ''0xbb22'' ''known'',
                        example_blob ''0xcc33'' ''world''])) =
     [Save ''blobscan'' ''1/aa11.txt'' ''hello'',
      UploadFile ''batch-1'' ''hello'' ''1/aa11.txt'' True ''text/plain'',
      Save ''blobscan'' ''1/cc33.txt'' ''world'',
      UploadFile ''batch-1'' ''world'' ''1/cc33.txt'' True ''text/plain'']
   \<and> (\<exists>batchId.
        store_ops (index example_env
          (example_request [example_blob ''0xaa11'' ''hello'', example_blob ''0xbb22'' ''known'',
                            example_blob ''0xcc33'' ''world''])) =
        concat (map (\<lambda>b. [Save (BUCKET_NAME example_env)
                             (buildGoogleStorageUri example_env (versionedHash b)) (data b),
                           UploadFile batchId (data b)
                             (buildGoogleStorageUri example_env (versionedHash b)) True
                             ''text/plain''])
                 (new (getNewBlobs example_env
                    (blobs (example_request [example_blob ''0xaa11'' ''hello'',
                       example_blob ''0xbb22'' ''known'', example_blob ''0xcc33'' ''world''])))))) "
proof -
  let ?inp = "example_request [example_blob ''0xaa11'' ''hello'', example_blob ''0xbb22'' ''known'',
                        example_blob ''0xcc33'' ''world'']"
  have ops: "store_ops (index example_env ?inp) =
     [Save ''blobscan'' ''1/aa11.txt'' ''hello'',
      UploadFile ''batch-1'' ''hello'' ''1/aa11.txt'' True ''text/plain'',
      Save ''blobscan'' ''1/cc33.txt'' ''world'',
      UploadFile ''batch-1'' ''world'' ''1/cc33.txt'' True ''text/plain'']"
    by (simp add: example_simps)
  then have "store_ops (index example_env ?inp) \<noteq> []"
    by simp
  from index_same_key_on_every_backend [OF this] ops show ?thesis
    by blast
qed

text \<open>
  C9. When the mutation succeeds, the blob records it returns are those of the
  new blobs, one for each, in the order in which these blobs stand in the
  request.
\<close>

theorem index_preserves_order:
  assumes "result (index e inp) = Inr rows"
  shows "map blob_versionedHash rows =
           map versionedHash
             (filter (\<lambda>b. versionedHash b \<notin> set (bulkContains e (map versionedHash (blobs inp))))
                (blobs inp))"
proof (cases e inp rule: index_cases)
  case (committed batch rest batchId addrs t rows')
  with assms have "rows' = rows" by simp
  with committed(4) uploaded_rows_follow_blobs [of e batchId "new (getNewBlobs e (blobs inp))" t rows]
  show ?thesis by (simp add: getNewBlobs_new)
qed (use assms in \<open>simp_all add: failed_def\<close>)

text \<open>
  The theorem at a request with a known blob between two new ones.
\<close>

theorem index_preserves_order_witness:
  "result (index example_env
      (example_request [example_blob ''0xcc33'' ''world'', example_blob ''0xbb22'' ''known'',
                        example_blob ''0xaa11'' ''hello''])) =
     Inr [\<lparr>blob_id = ''0xcc33'', blob_versionedHash = ''0xcc33'', blob_commitment = ''0xc0'',
           gsUri = ''1/cc33.txt'', swarmHash = ''ref-1/cc33.txt'', blob_size = 5\<rparr>,
          \<lparr>blob_id = ''0xaa11'', blob_versionedHash = ''0xaa11'', blob_commitment = ''0xc0'',
           gsUri = ''1/aa11.txt'', swarmHash = ''ref-1/aa11.txt'', blob_size = 5\<rparr>]
   \<and> map blob_versionedHash
        [\<lparr>blob_id = ''0xcc33'', blob_versionedHash = ''0xcc33'', blob_commitment = ''0xc0'',
           gsUri = ''1/cc33.txt'', swarmHash = ''ref-1/cc33.txt'', blob_size = 5\<rparr>,
          \<lparr>blob_id = ''0xaa11'', blob_versionedHash = ''0xaa11'', blob_commitment = ''0xc0'',
           gsUri = ''1/aa11.txt'', swarmHash = ''ref-1/aa11.txt'', blob_size = 5\<rparr>]
      = [''0xcc33'', ''0xaa11'']"
proof -
  let ?inp = "example_request [example_blob ''0xcc33'' ''world'', example_blob ''0xbb22'' ''known'',
                        example_blob ''0xaa11'' ''hello'']"
  let ?rows = "[\<lparr>blob_id = ''0xcc33'', blob_versionedHash = ''0xcc33'', blob_commitment = ''0xc0'',
           gsUri = ''1/cc33.txt'', swarmHash = ''ref-1/cc33.txt'', blob_size = 5\<rparr>,
          \<lparr>blob_id = ''0xaa11'', blob_versionedHash = ''0xaa11'', blob_commitment = ''0xc0'',
           gsUri = ''1/aa11.txt'', swarmHash = ''ref-1/aa11.txt'', blob_size = 5\<rparr>]"
  have 1: "result (index example_env ?inp) = Inr ?rows"
    by (simp add: example_simps)
  from index_preserves_order [OF 1] 1 show ?thesis
    by (simp add: example_env_def example_request_def example_blob_def)
qed




section \<open>The shape of the storage key\<close>




end
